theory Spec2Isabelle
  imports Main
begin

section \<open>Go values shared by both packages\<close>

text \<open>
  A Go \<^verbatim>\<open>error\<close> is an interface value. Three kinds of error values occur in the
  two packages:
  \<^item> \<open>AwsError code message\<close>: a value that implements the SDK's \<^verbatim>\<open>awserr.Error\<close>
    interface, with its \<^verbatim>\<open>Code()\<close> and \<^verbatim>\<open>Message()\<close>;
  \<^item> \<open>ErrorsNew msg\<close>: the result of \<^verbatim>\<open>errors.New(msg)\<close>, and any other plain error:
    it does not implement \<^verbatim>\<open>awserr.Error\<close>;
  \<^item> \<open>Errorf format args\<close>: the result of \<^verbatim>\<open>fmt.Errorf(format, args...)\<close>, kept as the
    format string and its arguments; it does not implement \<^verbatim>\<open>awserr.Error\<close> either.
  A nil error is \<open>None\<close> of \<open>error option\<close>.
\<close>

datatype fmt_arg =
    Str string
  | StrSlice "string list"
  | StrMap "(string \<times> string) list"
  | Err error
and error =
    AwsError string string
  | ErrorsNew string
  | Errorf string "fmt_arg list"

text \<open>
  The type assertion \<^verbatim>\<open>err.(awserr.Error)\<close> in its one-result form: it yields the
  asserted value when \<open>err\<close> implements the interface and panics otherwise. A function
  that can panic returns an \<open>outcome\<close>.
\<close>

datatype 'a outcome = Return 'a | Panic

fun Code :: "error \<Rightarrow> string outcome" where
  "Code (AwsError code message) = Return code"
| "Code (ErrorsNew msg) = Panic"
| "Code (Errorf format args) = Panic"

section \<open>Package config: deploy arguments\<close>

record DeployArgs =
  IAAS :: string
  AWSRegion :: string
  Domain' :: string
  TLSCert :: string
  TLSKey :: string
  WorkerCount :: int
  WorkerSize :: string
  WebSize :: string
  SelfUpdate :: bool
  DBSize :: string
  DBSizeIsSet :: bool
  RestrictIPs :: string

definition WorkerSizes :: "string list" where
  "WorkerSizes = [''medium'', ''large'', ''xlarge'', ''2xlarge'', ''4xlarge'', ''10xlarge'', ''16xlarge'']"

definition WebSizes :: "string list" where
  "WebSizes = [''small'', ''medium'', ''large'', ''xlarge'', ''2xlarge'']"

text \<open>The Go map literal \<^verbatim>\<open>DBSizes\<close>, as its entries; a lookup is \<open>map_of DBSizes\<close>.\<close>

definition DBSizes :: "(string \<times> string) list" where
  "DBSizes =
    [(''small'', ''db.t2.small''),
     (''medium'', ''db.t2.medium''),
     (''large'', ''db.m4.large''),
     (''xlarge'', ''db.m4.xlarge''),
     (''2xlarge'', ''db.m4.2xlarge''),
     (''4xlarge'', ''db.m4.4xlarge'')]"

definition validateCertFields :: "DeployArgs \<Rightarrow> error option" where
  "validateCertFields args =
    (if TLSKey args \<noteq> '''' \<and> TLSCert args = '''' then
       Some (ErrorsNew ''--tls-key requires --tls-cert to also be provided'')
     else if TLSCert args \<noteq> '''' \<and> TLSKey args = '''' then
       Some (ErrorsNew ''--tls-cert requires --tls-key to also be provided'')
     else if (TLSKey args \<noteq> '''' \<or> TLSCert args \<noteq> '''') \<and> Domain' args = '''' then
       Some (ErrorsNew ''custom certificates require --domain to be provided'')
     else None)"

text \<open>
  The loop \<^verbatim>\<open>for _, size := range sizes { if size == wanted { return nil } }\<close>:
  \<open>True\<close> when the loop returns from inside, \<open>False\<close> when it runs off the end.
\<close>

fun range_sizes :: "string list \<Rightarrow> string \<Rightarrow> bool" where
  "range_sizes [] wanted = False"
| "range_sizes (size' # rest) wanted = (if size' = wanted then True else range_sizes rest wanted)"

definition validateWorkerFields :: "DeployArgs \<Rightarrow> error option" where
  "validateWorkerFields args =
    (if WorkerCount args < 1 then Some (ErrorsNew ''minimum of workers is 1'')
     else if range_sizes WorkerSizes (WorkerSize args) then None
     else Some (Errorf ''unknown worker size: `%s`. Valid sizes are: %v''
                  [Str (WorkerSize args), StrSlice WorkerSizes]))"

definition validateWebFields :: "DeployArgs \<Rightarrow> error option" where
  "validateWebFields args =
    (if range_sizes WebSizes (WebSize args) then None
     else Some (Errorf ''unknown web node size: `%s`. Valid sizes are: %v''
                  [Str (WebSize args), StrSlice WebSizes]))"

definition validateDBFields :: "DeployArgs \<Rightarrow> error option" where
  "validateDBFields args =
    (case map_of DBSizes (DBSize args) of
       None \<Rightarrow> Some (Errorf ''unknown DB size: `%s`. Valid sizes are: %v''
                       [Str (DBSize args), StrMap DBSizes])
     | Some _ \<Rightarrow> None)"

definition Validate :: "DeployArgs \<Rightarrow> error option" where
  "Validate args =
    (case validateCertFields args of
       Some err \<Rightarrow> Some err
     | None \<Rightarrow>
    (case validateWorkerFields args of
       Some err \<Rightarrow> Some err
     | None \<Rightarrow>
    (case validateWebFields args of
       Some err \<Rightarrow> Some err
     | None \<Rightarrow>
    (case validateDBFields args of
       Some err \<Rightarrow> Some err
     | None \<Rightarrow> None))))"

section \<open>Package iaas: the S3 client\<close>

subsection \<open>The SDK's data\<close>

text \<open>
  \<^verbatim>\<open>[]byte\<close> is a \<open>string\<close> (a list of 8-bit characters); a nil slice or pointer
  that the code can hold is \<open>None\<close> of an option type. The structs of the SDK carry the
  fields the code reads or sets.
\<close>

type_synonym bytes = string

record ObjectVersion =
  Key :: "string option"
  VersionId :: "string option"

record DeleteMarkerEntry =
  MarkerKey :: "string option"
  MarkerVersionId :: "string option"

record ListObjectVersionsOutput =
  Versions :: "ObjectVersion list"
  DeleteMarkers :: "DeleteMarkerEntry list"

record CreateBucketConfiguration =
  LocationConstraint :: "string option"

text \<open>
  The body of a fetched object is read with \<^verbatim>\<open>ioutil.ReadAll\<close> only; \<open>Body\<close> is what
  that call returns on it: the bytes read and the read error, if any.
\<close>

record GetObjectOutput =
  Body :: "bytes \<times> error option"

text \<open>
  The requests the code sends, named after the SDK's input structs, with the fields
  the code sets: \<open>DeleteObjectInput bucket key versionId\<close>,
  \<open>CreateBucketInput bucket createBucketConfiguration\<close>,
  \<open>PutBucketVersioningInput bucket status\<close>, \<open>PutObjectInput bucket key body\<close>.
\<close>

datatype request =
    ListObjectVersionsInput string
  | DeleteObjectInput string "string option" "string option"
  | DeleteBucketInput string
  | CreateBucketInput string "CreateBucketConfiguration option"
  | PutBucketVersioningInput string string
  | HeadBucketInput string
  | PutObjectInput string string bytes
  | HeadObjectInput string string
  | GetObjectInput string string

subsection \<open>The provider behind the SDK\<close>

text \<open>
  The service the SDK talks to is a parameter of the model: any deterministic provider
  with a state of type \<open>'s\<close>, answering each kind of request. The answer to
  \<^verbatim>\<open>ListObjectVersionsPages\<close> is the sequence of pages the SDK would hand to the
  callback, with the error that ends the paging, if any.
\<close>

record 's S3API =
  api_ListObjectVersionsPages ::
    "string \<Rightarrow> 's \<Rightarrow> (ListObjectVersionsOutput list \<times> error option) \<times> 's"
  api_DeleteObject :: "string \<Rightarrow> string option \<Rightarrow> string option \<Rightarrow> 's \<Rightarrow> error option \<times> 's"
  api_DeleteBucket :: "string \<Rightarrow> 's \<Rightarrow> error option \<times> 's"
  api_CreateBucket :: "string \<Rightarrow> CreateBucketConfiguration option \<Rightarrow> 's \<Rightarrow> error option \<times> 's"
  api_PutBucketVersioning :: "string \<Rightarrow> string \<Rightarrow> 's \<Rightarrow> error option \<times> 's"
  api_HeadBucket :: "string \<Rightarrow> 's \<Rightarrow> error option \<times> 's"
  api_PutObject :: "string \<Rightarrow> string \<Rightarrow> bytes \<Rightarrow> 's \<Rightarrow> error option \<times> 's"
  api_HeadObject :: "string \<Rightarrow> string \<Rightarrow> 's \<Rightarrow> error option \<times> 's"
  api_GetObject :: "string \<Rightarrow> string \<Rightarrow> 's \<Rightarrow> (error + GetObjectOutput) \<times> 's"

text \<open>
  The world an operation runs in: the requests sent so far, oldest first, and the
  provider's state. \<open>issue\<close> sends one request: it is recorded and the provider answers.
\<close>

record 's world =
  trace :: "request list"
  prov :: 's

definition issue :: "request \<Rightarrow> ('s \<Rightarrow> 'r \<times> 's) \<Rightarrow> 's world \<Rightarrow> 'r \<times> 's world" where
  "issue rq answer w =
    (case answer (prov w) of (r, s') \<Rightarrow> (r, \<lparr>trace = trace w @ [rq], prov = s'\<rparr>))"

text \<open>
  The SDK's paging loop: the callback gets each page and whether it is the last one,
  and paging stops when it returns false. \<open>EachPage\<close> returns whether it was stopped.
\<close>

fun EachPage ::
  "(ListObjectVersionsOutput \<Rightarrow> bool \<Rightarrow> 'a \<Rightarrow> bool \<times> 'a) \<Rightarrow> ListObjectVersionsOutput list \<Rightarrow> 'a
    \<Rightarrow> bool \<times> 'a" where
  "EachPage fn [] acc = (False, acc)"
| "EachPage fn (page # pages) acc =
    (case fn page (pages = []) acc of
       (True, acc') \<Rightarrow> EachPage fn pages acc'
     | (False, acc') \<Rightarrow> (True, acc'))"

definition s3Client_ListObjectVersionsPages ::
  "'s S3API \<Rightarrow> string \<Rightarrow> (ListObjectVersionsOutput \<Rightarrow> bool \<Rightarrow> 'a \<Rightarrow> bool \<times> 'a) \<Rightarrow> 'a \<Rightarrow> 's world
    \<Rightarrow> (error option \<times> 'a) \<times> 's world" where
  "s3Client_ListObjectVersionsPages svc name fn acc w =
    (case issue (ListObjectVersionsInput name) (api_ListObjectVersionsPages svc name) w of
       ((pages, err), w') \<Rightarrow>
         (case EachPage fn pages acc of
            (True, acc') \<Rightarrow> ((None, acc'), w')
          | (False, acc') \<Rightarrow> ((err, acc'), w')))"

definition s3Client_DeleteObject ::
  "'s S3API \<Rightarrow> string \<Rightarrow> string option \<Rightarrow> string option \<Rightarrow> 's world \<Rightarrow> error option \<times> 's world" where
  "s3Client_DeleteObject svc bucket key' versionId =
    issue (DeleteObjectInput bucket key' versionId) (api_DeleteObject svc bucket key' versionId)"

definition s3Client_DeleteBucket :: "'s S3API \<Rightarrow> string \<Rightarrow> 's world \<Rightarrow> error option \<times> 's world" where
  "s3Client_DeleteBucket svc bucket = issue (DeleteBucketInput bucket) (api_DeleteBucket svc bucket)"

definition s3Client_CreateBucket ::
  "'s S3API \<Rightarrow> string \<Rightarrow> CreateBucketConfiguration option \<Rightarrow> 's world \<Rightarrow> error option \<times> 's world" where
  "s3Client_CreateBucket svc bucket cfg =
    issue (CreateBucketInput bucket cfg) (api_CreateBucket svc bucket cfg)"

definition s3Client_PutBucketVersioning ::
  "'s S3API \<Rightarrow> string \<Rightarrow> string \<Rightarrow> 's world \<Rightarrow> error option \<times> 's world" where
  "s3Client_PutBucketVersioning svc bucket status =
    issue (PutBucketVersioningInput bucket status) (api_PutBucketVersioning svc bucket status)"

definition s3Client_HeadBucket :: "'s S3API \<Rightarrow> string \<Rightarrow> 's world \<Rightarrow> error option \<times> 's world" where
  "s3Client_HeadBucket svc bucket = issue (HeadBucketInput bucket) (api_HeadBucket svc bucket)"

definition s3Client_PutObject ::
  "'s S3API \<Rightarrow> string \<Rightarrow> string \<Rightarrow> bytes \<Rightarrow> 's world \<Rightarrow> error option \<times> 's world" where
  "s3Client_PutObject svc bucket path body =
    issue (PutObjectInput bucket path body) (api_PutObject svc bucket path body)"

definition s3Client_HeadObject ::
  "'s S3API \<Rightarrow> string \<Rightarrow> string \<Rightarrow> 's world \<Rightarrow> error option \<times> 's world" where
  "s3Client_HeadObject svc bucket path = issue (HeadObjectInput bucket path) (api_HeadObject svc bucket path)"

definition s3Client_GetObject ::
  "'s S3API \<Rightarrow> string \<Rightarrow> string \<Rightarrow> 's world \<Rightarrow> (error + GetObjectOutput) \<times> 's world" where
  "s3Client_GetObject svc bucket path = issue (GetObjectInput bucket path) (api_GetObject svc bucket path)"

subsection \<open>The operations of s3.go\<close>

text \<open>
  \<open>AWSProvider\<close> is the receiver: \<open>Region\<close> is \<^verbatim>\<open>client.sess.Config.Region\<close> (a
  pointer: \<open>None\<close> is nil) and \<open>service\<close> is the provider that
  \<^verbatim>\<open>s3.New(client.sess)\<close> reaches.
\<close>

record 's AWSProvider =
  Region :: "string option"
  service :: "'s S3API"

definition awsErrCodeNoSuchBucket :: string where
  "awsErrCodeNoSuchBucket = ''NoSuchBucket''"

definition awsErrCodeNoSuchKey :: string where
  "awsErrCodeNoSuchKey = ''NoSuchKey''"

definition awsErrCodeNotFound :: string where
  "awsErrCodeNotFound = ''NotFound''"

text \<open>
  The loop of \<^verbatim>\<open>DeleteVersionedBucket\<close> over the collected objects. \<open>Some r\<close> is a
  \<^verbatim>\<open>return r\<close> from inside the loop; \<open>None\<close> is the loop running to its end.
\<close>

fun delete_objects ::
  "'s S3API \<Rightarrow> string \<Rightarrow> ObjectVersion list \<Rightarrow> 's world \<Rightarrow> error option option \<times> 's world" where
  "delete_objects svc name [] w = (None, w)"
| "delete_objects svc name (object # rest) w =
    (case s3Client_DeleteObject svc name (Key object) (VersionId object) w of
       (Some err, w') \<Rightarrow> (Some None, w')
     | (None, w') \<Rightarrow> delete_objects svc name rest w')"

text \<open>
  \<^verbatim>\<open>time.Sleep(time.Second)\<close> between the loop and the bucket's deletion sends no
  request and changes no value; it has no counterpart in the model.
\<close>

definition DeleteVersionedBucket :: "'s AWSProvider \<Rightarrow> string \<Rightarrow> 's world \<Rightarrow> error option \<times> 's world" where
  "DeleteVersionedBucket client name w =
    (case s3Client_ListObjectVersionsPages (service client) name
            (\<lambda>output _ objects. (True, objects @ Versions output)) [] w of
       ((Some err, objects), w1) \<Rightarrow> (Some err, w1)
     | ((None, objects), w1) \<Rightarrow>
         (case delete_objects (service client) name objects w1 of
            (Some returned, w2) \<Rightarrow> (returned, w2)
          | (None, w2) \<Rightarrow> s3Client_DeleteBucket (service client) name w2))"

text \<open>\<^verbatim>\<open>*client.sess.Config.Region\<close> dereferences the pointer: a nil pointer panics.\<close>

definition CreateBucket :: "'s AWSProvider \<Rightarrow> string \<Rightarrow> 's world \<Rightarrow> error option outcome \<times> 's world" where
  "CreateBucket client name w =
    (case Region client of
       None \<Rightarrow> (Panic, w)
     | Some region \<Rightarrow>
         (let createBucketConfiguration =
                (if region \<noteq> ''us-east-1''
                 then Some \<lparr>LocationConstraint = Region client\<rparr>
                 else None)
          in case s3Client_CreateBucket (service client) name createBucketConfiguration w of
               (Some err, w1) \<Rightarrow>
                 (Return (Some (Errorf ''error creating S3 bucket [%v]: [%v]'' [Str name, Err err])), w1)
             | (None, w1) \<Rightarrow>
                 (case s3Client_PutBucketVersioning (service client) name ''Enabled'' w1 of
                    (Some err, w2) \<Rightarrow>
                      (Return (Some (Errorf ''error enabling versioning on S3 bucket [%v]: [%v]''
                                       [Str name, Err err])), w2)
                  | (None, w2) \<Rightarrow> (Return None, w2))))"

definition BucketExists ::
  "'s AWSProvider \<Rightarrow> string \<Rightarrow> 's world \<Rightarrow> (bool \<times> error option) outcome \<times> 's world" where
  "BucketExists client name w =
    (case s3Client_HeadBucket (service client) name w of
       (None, w1) \<Rightarrow> (Return (True, None), w1)
     | (Some err, w1) \<Rightarrow>
         (case Code err of
            Panic \<Rightarrow> (Panic, w1)
          | Return awsErrCode \<Rightarrow>
              if awsErrCode \<noteq> awsErrCodeNotFound \<and> awsErrCode \<noteq> awsErrCodeNoSuchBucket
              then (Return (False, Some err), w1)
              else (Return (False, None), w1)))"

definition WriteFile ::
  "'s AWSProvider \<Rightarrow> string \<Rightarrow> string \<Rightarrow> bytes \<Rightarrow> 's world \<Rightarrow> error option \<times> 's world" where
  "WriteFile client bucket path contents w = s3Client_PutObject (service client) bucket path contents w"

definition HasFile ::
  "'s AWSProvider \<Rightarrow> string \<Rightarrow> string \<Rightarrow> 's world \<Rightarrow> (bool \<times> error option) outcome \<times> 's world" where
  "HasFile client bucket path w =
    (case s3Client_HeadObject (service client) bucket path w of
       (Some err, w1) \<Rightarrow>
         (case Code err of
            Panic \<Rightarrow> (Panic, w1)
          | Return awsErrCode \<Rightarrow>
              if awsErrCode = awsErrCodeNotFound \<or> awsErrCode = awsErrCodeNoSuchKey
              then (Return (False, None), w1)
              else (Return (False, Some err), w1))
     | (None, w1) \<Rightarrow> (Return (True, None), w1))"

text \<open>
  The results of \<^verbatim>\<open>EnsureFileExists\<close> are the contents (\<open>None\<close> is the nil slice),
  whether the file was created, and the error.
\<close>

definition EnsureFileExists ::
  "'s AWSProvider \<Rightarrow> string \<Rightarrow> string \<Rightarrow> bytes \<Rightarrow> 's world
    \<Rightarrow> (bytes option \<times> bool \<times> error option) outcome \<times> 's world" where
  "EnsureFileExists client bucket path defaultContents w =
    (case s3Client_GetObject (service client) bucket path w of
       (Inr output, w1) \<Rightarrow>
         (case Body output of
            (contents, Some err) \<Rightarrow> (Return (None, False, Some err), w1)
          | (contents, None) \<Rightarrow> (Return (Some contents, False, None), w1))
     | (Inl err, w1) \<Rightarrow>
         (case Code err of
            Panic \<Rightarrow> (Panic, w1)
          | Return awsErrCode \<Rightarrow>
              if awsErrCode \<noteq> awsErrCodeNoSuchKey \<and> awsErrCode \<noteq> awsErrCodeNotFound
              then (Return (None, False, Some err), w1)
              else
                (case s3Client_PutObject (service client) bucket path defaultContents w1 of
                   (Some err, w2) \<Rightarrow> (Return (None, False, Some err), w2)
                 | (None, w2) \<Rightarrow> (Return (Some defaultContents, True, None), w2))))"

definition LoadFile ::
  "'s AWSProvider \<Rightarrow> string \<Rightarrow> string \<Rightarrow> 's world \<Rightarrow> (bytes option \<times> error option) \<times> 's world" where
  "LoadFile client bucket path w =
    (case s3Client_GetObject (service client) bucket path w of
       (Inl err, w1) \<Rightarrow> ((None, Some err), w1)
     | (Inr output, w1) \<Rightarrow> ((Some (fst (Body output)), snd (Body output)), w1))"

definition DeleteFile :: "'s AWSProvider \<Rightarrow> string \<Rightarrow> string \<Rightarrow> 's world \<Rightarrow> error option \<times> 's world" where
  "DeleteFile client bucket path w = s3Client_DeleteObject (service client) bucket (Some path) None w"

subsection \<open>Ensuring a container\<close>

text \<open>
  Modelled from the spec: the operation that ensures a container exists
  (\<^verbatim>\<open>EnsureContainer(name) -> (created bool, err)\<close>) has no implementation in the
  source files at hand; only \<^verbatim>\<open>BucketExists\<close> and \<^verbatim>\<open>CreateBucket\<close>, which it is built
  from, are. Following the spec it checks existence first and, if the container is
  absent, creates it and then enables versioning (both inside \<^verbatim>\<open>CreateBucket\<close>). The
  boolean is true when this call created the container; an error of either step is
  returned with false.
\<close>

definition EnsureContainer ::
  "'s AWSProvider \<Rightarrow> string \<Rightarrow> 's world \<Rightarrow> (bool \<times> error option) outcome \<times> 's world" where
  "EnsureContainer client name w =
    (case BucketExists client name w of
       (Panic, w1) \<Rightarrow> (Panic, w1)
     | (Return (exists, Some err), w1) \<Rightarrow> (Return (False, Some err), w1)
     | (Return (True, None), w1) \<Rightarrow> (Return (False, None), w1)
     | (Return (False, None), w1) \<Rightarrow>
         (case CreateBucket client name w1 of
            (Panic, w2) \<Rightarrow> (Panic, w2)
          | (Return (Some err), w2) \<Rightarrow> (Return (False, Some err), w2)
          | (Return None, w2) \<Rightarrow> (Return (True, None), w2)))"

section \<open>An in-memory provider\<close>

text \<open>
  A small provider to run the operations on: buckets hold their entries, newest first;
  an entry is a stored version of a key or a delete marker. With versioning enabled a
  write adds a version and a delete without a version id adds a delete marker; a
  delete with a version id removes that one entry; a bucket can only be deleted when
  it holds no entry. Listing hands out the entries in pages of \<open>Suc page\<close> entries,
  versions and delete markers in separate fields, as the SDK's output has them.
  \<open>faults\<close> scripts failures: a request it maps to an error fails with that error and
  changes nothing.
\<close>

datatype stored = Version string string bytes | Marker string string

fun stored_key :: "stored \<Rightarrow> string" where
  "stored_key (Version k v d) = k"
| "stored_key (Marker k v) = k"

fun stored_id :: "stored \<Rightarrow> string" where
  "stored_id (Version k v d) = v"
| "stored_id (Marker k v) = v"

record mem_bucket =
  versioning :: bool
  location :: "string option"
  entries :: "stored list"

record mem_s3 =
  buckets :: "string \<rightharpoonup> mem_bucket"
  issued :: nat

definition version_id :: "nat \<Rightarrow> string" where
  "version_id n = CHR ''v'' # replicate n (CHR ''i'')"

definition no_such_bucket :: error where
  "no_such_bucket = AwsError ''NoSuchBucket'' ''The specified bucket does not exist''"

definition no_such_key :: error where
  "no_such_key = AwsError ''NoSuchKey'' ''The specified key does not exist.''"

definition not_found :: error where
  "not_found = AwsError ''NotFound'' ''Not Found''"

definition put_bucket :: "string \<Rightarrow> mem_bucket \<Rightarrow> mem_s3 \<Rightarrow> mem_s3" where
  "put_bucket name b s = s\<lparr>buckets := (buckets s)(name \<mapsto> b)\<rparr>"

definition without :: "string \<Rightarrow> string \<Rightarrow> stored list \<Rightarrow> stored list" where
  "without k v es = filter (\<lambda>e. \<not> (stored_key e = k \<and> stored_id e = v)) es"

fun versions_of :: "stored list \<Rightarrow> ObjectVersion list" where
  "versions_of [] = []"
| "versions_of (Version k v d # es) = \<lparr>Key = Some k, VersionId = Some v\<rparr> # versions_of es"
| "versions_of (Marker k v # es) = versions_of es"

fun markers_of :: "stored list \<Rightarrow> DeleteMarkerEntry list" where
  "markers_of [] = []"
| "markers_of (Version k v d # es) = markers_of es"
| "markers_of (Marker k v # es) = \<lparr>MarkerKey = Some k, MarkerVersionId = Some v\<rparr> # markers_of es"

fun chunks :: "nat \<Rightarrow> 'a list \<Rightarrow> 'a list list" where
  "chunks n [] = []"
| "chunks n (x # xs) = (x # take n xs) # chunks n (drop n xs)"

definition page_of :: "stored list \<Rightarrow> ListObjectVersionsOutput" where
  "page_of es = \<lparr>Versions = versions_of es, DeleteMarkers = markers_of es\<rparr>"

definition mem_ListObjectVersionsPages ::
  "nat \<Rightarrow> string \<Rightarrow> mem_s3 \<Rightarrow> (ListObjectVersionsOutput list \<times> error option) \<times> mem_s3" where
  "mem_ListObjectVersionsPages page name s =
    (case buckets s name of
       None \<Rightarrow> (([], Some no_such_bucket), s)
     | Some b \<Rightarrow>
         ((if entries b = [] then [page_of []] else map page_of (chunks page (entries b)), None), s))"

definition mem_DeleteObject ::
  "string \<Rightarrow> string option \<Rightarrow> string option \<Rightarrow> mem_s3 \<Rightarrow> error option \<times> mem_s3" where
  "mem_DeleteObject name key' versionId s =
    (case buckets s name of
       None \<Rightarrow> (Some no_such_bucket, s)
     | Some b \<Rightarrow>
         (case key' of
            None \<Rightarrow> (Some (AwsError ''InvalidParameter'' ''missing required field, Key''), s)
          | Some k \<Rightarrow>
              (case versionId of
                 Some v \<Rightarrow> (None, put_bucket name (b\<lparr>entries := without k v (entries b)\<rparr>) s)
               | None \<Rightarrow>
                   if versioning b
                   then (None, (put_bucket name
                                  (b\<lparr>entries := Marker k (version_id (issued s)) # entries b\<rparr>) s)
                                 \<lparr>issued := Suc (issued s)\<rparr>)
                   else (None, put_bucket name (b\<lparr>entries := without k ''null'' (entries b)\<rparr>) s))))"

definition mem_DeleteBucket :: "string \<Rightarrow> mem_s3 \<Rightarrow> error option \<times> mem_s3" where
  "mem_DeleteBucket name s =
    (case buckets s name of
       None \<Rightarrow> (Some no_such_bucket, s)
     | Some b \<Rightarrow>
         if entries b \<noteq> []
         then (Some (AwsError ''BucketNotEmpty'' ''The bucket you tried to delete is not empty''), s)
         else (None, s\<lparr>buckets := (buckets s)(name := None)\<rparr>))"

definition mem_CreateBucket ::
  "string \<Rightarrow> CreateBucketConfiguration option \<Rightarrow> mem_s3 \<Rightarrow> error option \<times> mem_s3" where
  "mem_CreateBucket name cfg s =
    (case buckets s name of
       Some b \<Rightarrow> (Some (AwsError ''BucketAlreadyOwnedByYou'' ''Your previous request to create the named bucket succeeded''), s)
     | None \<Rightarrow>
         (None, put_bucket name
                  \<lparr>versioning = False,
                   location = (case cfg of None \<Rightarrow> None | Some c \<Rightarrow> LocationConstraint c),
                   entries = []\<rparr> s))"

definition mem_PutBucketVersioning :: "string \<Rightarrow> string \<Rightarrow> mem_s3 \<Rightarrow> error option \<times> mem_s3" where
  "mem_PutBucketVersioning name status s =
    (case buckets s name of
       None \<Rightarrow> (Some no_such_bucket, s)
     | Some b \<Rightarrow> (None, put_bucket name (b\<lparr>versioning := (status = ''Enabled'')\<rparr>) s))"

definition mem_HeadBucket :: "string \<Rightarrow> mem_s3 \<Rightarrow> error option \<times> mem_s3" where
  "mem_HeadBucket name s =
    (case buckets s name of None \<Rightarrow> (Some not_found, s) | Some b \<Rightarrow> (None, s))"

definition mem_PutObject :: "string \<Rightarrow> string \<Rightarrow> bytes \<Rightarrow> mem_s3 \<Rightarrow> error option \<times> mem_s3" where
  "mem_PutObject name k body s =
    (case buckets s name of
       None \<Rightarrow> (Some no_such_bucket, s)
     | Some b \<Rightarrow>
         if versioning b
         then (None, (put_bucket name
                        (b\<lparr>entries := Version k (version_id (issued s)) body # entries b\<rparr>) s)
                       \<lparr>issued := Suc (issued s)\<rparr>)
         else (None, put_bucket name
                       (b\<lparr>entries := Version k ''null'' body # without k ''null'' (entries b)\<rparr>) s))"

text \<open>The current state of a key is its newest entry.\<close>

definition current :: "string \<Rightarrow> stored list \<Rightarrow> stored option" where
  "current k es = find (\<lambda>e. stored_key e = k) es"

definition mem_HeadObject :: "string \<Rightarrow> string \<Rightarrow> mem_s3 \<Rightarrow> error option \<times> mem_s3" where
  "mem_HeadObject name k s =
    (case buckets s name of
       None \<Rightarrow> (Some not_found, s)
     | Some b \<Rightarrow>
         (case current k (entries b) of
            Some (Version k' v d) \<Rightarrow> (None, s)
          | _ \<Rightarrow> (Some not_found, s)))"

definition mem_GetObject :: "string \<Rightarrow> string \<Rightarrow> mem_s3 \<Rightarrow> (error + GetObjectOutput) \<times> mem_s3" where
  "mem_GetObject name k s =
    (case buckets s name of
       None \<Rightarrow> (Inl no_such_bucket, s)
     | Some b \<Rightarrow>
         (case current k (entries b) of
            Some (Version k' v d) \<Rightarrow> (Inr \<lparr>Body = (d, None)\<rparr>, s)
          | _ \<Rightarrow> (Inl no_such_key, s)))"

definition scripted ::
  "(request \<Rightarrow> error option) \<Rightarrow> request \<Rightarrow> (error \<Rightarrow> 'r) \<Rightarrow> (mem_s3 \<Rightarrow> 'r \<times> mem_s3) \<Rightarrow> mem_s3 \<Rightarrow> 'r \<times> mem_s3" where
  "scripted faults rq failed answer s =
    (case faults rq of Some e \<Rightarrow> (failed e, s) | None \<Rightarrow> answer s)"

definition mem_service :: "(request \<Rightarrow> error option) \<Rightarrow> nat \<Rightarrow> mem_s3 S3API" where
  "mem_service faults page =
    \<lparr>api_ListObjectVersionsPages = (\<lambda>name.
       scripted faults (ListObjectVersionsInput name) (\<lambda>e. ([], Some e))
         (mem_ListObjectVersionsPages page name)),
     api_DeleteObject = (\<lambda>name k v.
       scripted faults (DeleteObjectInput name k v) Some (mem_DeleteObject name k v)),
     api_DeleteBucket = (\<lambda>name.
       scripted faults (DeleteBucketInput name) Some (mem_DeleteBucket name)),
     api_CreateBucket = (\<lambda>name cfg.
       scripted faults (CreateBucketInput name cfg) Some (mem_CreateBucket name cfg)),
     api_PutBucketVersioning = (\<lambda>name status.
       scripted faults (PutBucketVersioningInput name status) Some (mem_PutBucketVersioning name status)),
     api_HeadBucket = (\<lambda>name.
       scripted faults (HeadBucketInput name) Some (mem_HeadBucket name)),
     api_PutObject = (\<lambda>name k body.
       scripted faults (PutObjectInput name k body) Some (mem_PutObject name k body)),
     api_HeadObject = (\<lambda>name k.
       scripted faults (HeadObjectInput name k) Some (mem_HeadObject name k)),
     api_GetObject = (\<lambda>name k.
       scripted faults (GetObjectInput name k) Inl (mem_GetObject name k))\<rparr>"

definition mem_client :: "string \<Rightarrow> (request \<Rightarrow> error option) \<Rightarrow> nat \<Rightarrow> mem_s3 AWSProvider" where
  "mem_client region faults page = \<lparr>Region = Some region, service = mem_service faults page\<rparr>"

definition no_faults :: "request \<Rightarrow> error option" where
  "no_faults rq = None"

definition start :: "'s \<Rightarrow> 's world" where
  "start s = \<lparr>trace = [], prov = s\<rparr>"

definition empty_s3 :: mem_s3 where
  "empty_s3 = \<lparr>buckets = Map.empty, issued = 0\<rparr>"

section \<open>The validity of deploy arguments, in the words of the specification\<close>

text \<open>
  The four groups of conditions that \<^verbatim>\<open>Validate\<close> is said to check, written from their
  description and not from the code; the theorems below compare them with the code.
\<close>

definition certificates_valid :: "DeployArgs \<Rightarrow> bool" where
  "certificates_valid args =
    (((TLSKey args = '''') = (TLSCert args = '''')) \<and>
     (TLSKey args \<noteq> '''' \<or> TLSCert args \<noteq> '''' \<longrightarrow> Domain' args \<noteq> ''''))"

definition workers_valid :: "DeployArgs \<Rightarrow> bool" where
  "workers_valid args =
    (1 \<le> WorkerCount args \<and>
     WorkerSize args \<in>
       {''medium'', ''large'', ''xlarge'', ''2xlarge'', ''4xlarge'', ''10xlarge'', ''16xlarge''})"

definition web_valid :: "DeployArgs \<Rightarrow> bool" where
  "web_valid args = (WebSize args \<in> {''small'', ''medium'', ''large'', ''xlarge'', ''2xlarge''})"

definition db_valid :: "DeployArgs \<Rightarrow> bool" where
  "db_valid args = (DBSize args \<in> dom (map_of DBSizes))"

text \<open>Two argument records to run \<^verbatim>\<open>Validate\<close> on.\<close>

definition good_args :: DeployArgs where
  "good_args =
    \<lparr>IAAS = ''AWS'', AWSRegion = ''eu-west-1'', Domain' = ''ci.example.com'',
     TLSCert = ''cert'', TLSKey = ''key'', WorkerCount = 1, WorkerSize = ''xlarge'',
     WebSize = ''small'', SelfUpdate = False, DBSize = ''small'', DBSizeIsSet = False,
     RestrictIPs = ''''\<rparr>"

definition bad_args :: DeployArgs where
  "bad_args = good_args\<lparr>TLSCert := '''', WorkerCount := 0, WebSize := ''tiny'', DBSize := ''huge''\<rparr>"

section \<open>What the theorems say of errors and assume of providers\<close>

text \<open>Whether an error value implements \<^verbatim>\<open>awserr.Error\<close>, so that the type assertion succeeds.\<close>

fun implements_awserr :: "error \<Rightarrow> bool" where
  "implements_awserr (AwsError code message) = True"
| "implements_awserr (ErrorsNew msg) = False"
| "implements_awserr (Errorf format args) = False"

text \<open>
  Two laws of a store that some theorems assume of the provider: an object that was
  written successfully is read back with the content written, and a bucket that was
  created and versioned successfully is then found.
\<close>

definition read_your_writes :: "'s S3API \<Rightarrow> bool" where
  "read_your_writes svc =
    (\<forall>bucket path body s s'.
       api_PutObject svc bucket path body s = (None, s') \<longrightarrow>
       (\<exists>s''. api_GetObject svc bucket path s' = (Inr \<lparr>Body = (body, None)\<rparr>, s'')))"

definition created_bucket_is_found :: "'s S3API \<Rightarrow> bool" where
  "created_bucket_is_found svc =
    (\<forall>name cfg s s1 s2.
       api_CreateBucket svc name cfg s = (None, s1) \<and>
       api_PutBucketVersioning svc name ''Enabled'' s1 = (None, s2) \<longrightarrow>
       fst (api_HeadBucket svc name s2) = None)"

text \<open>
  Inputs to run the operations on: a script that fails one request, and a provider
  state holding the versioned bucket \<^verbatim>\<open>cfg-store\<close> with the given entries.
\<close>

definition fail_on :: "request \<Rightarrow> error \<Rightarrow> request \<Rightarrow> error option" where
  "fail_on rq e = (\<lambda>r. if r = rq then Some e else None)"

definition access_denied :: error where
  "access_denied = AwsError ''AccessDenied'' ''Access Denied''"

definition cfg_store :: "stored list \<Rightarrow> nat \<Rightarrow> mem_s3" where
  "cfg_store es n =
    \<lparr>buckets = [''cfg-store'' \<mapsto> \<lparr>versioning = True, location = Some ''eu-west-1'', entries = es\<rparr>],
     issued = n\<rparr>"

text \<open>
  Scripts under which every request fails: with a plain error, with NoSuchBucket, with
  AccessDenied. \<open>truncating_client\<close> reaches a provider whose objects are fetched but
  whose bodies break off while they are read.
\<close>

definition unreachable :: "request \<Rightarrow> error option" where
  "unreachable rq = Some (ErrorsNew ''connection reset'')"

definition bucket_gone :: "request \<Rightarrow> error option" where
  "bucket_gone rq = Some no_such_bucket"

definition denied :: "request \<Rightarrow> error option" where
  "denied rq = Some access_denied"

definition truncating_client :: "mem_s3 AWSProvider" where
  "truncating_client =
    \<lparr>Region = Some ''eu-west-1'',
     service = (mem_service no_faults 0)
       \<lparr>api_GetObject := (\<lambda>name k s. (Inr \<lparr>Body = (''{'', Some (ErrorsNew ''unexpected EOF''))\<rparr>, s))\<rparr>\<rparr>"

text \<open>
  The world after a file was written to the empty versioned bucket and deleted again by
  \<^verbatim>\<open>DeleteFile\<close>.
\<close>

definition deleted_file :: "mem_s3 world" where
  "deleted_file =
    snd (DeleteFile (mem_client ''eu-west-1'' no_faults 0) ''cfg-store'' ''a''
      (snd (WriteFile (mem_client ''eu-west-1'' no_faults 0) ''cfg-store'' ''a'' ''x''
        (start (cfg_store [] 0)))))"

section \<open>Deploy arguments: what Validate accepts\<close>

lemma range_sizes_set: "range_sizes sizes wanted = (wanted \<in> set sizes)"
  by (induction sizes) auto

lemma validateCertFields_None: "(validateCertFields args = None) = certificates_valid args"
  unfolding validateCertFields_def certificates_valid_def by auto

lemma validateWorkerFields_None: "(validateWorkerFields args = None) = workers_valid args"
  unfolding validateWorkerFields_def workers_valid_def range_sizes_set WorkerSizes_def by auto

lemma validateWebFields_None: "(validateWebFields args = None) = web_valid args"
  unfolding validateWebFields_def web_valid_def range_sizes_set WebSizes_def by auto

lemma validateDBFields_None: "(validateDBFields args = None) = db_valid args"
  unfolding validateDBFields_def db_valid_def by (auto split: option.splits)

lemma Validate_first_error:
  "Validate args =
     (if validateCertFields args \<noteq> None then validateCertFields args
      else if validateWorkerFields args \<noteq> None then validateWorkerFields args
      else if validateWebFields args \<noteq> None then validateWebFields args
      else validateDBFields args)"
  unfolding Validate_def by (auto split: option.splits)

lemma permitted_sizes_counted:
  "length WorkerSizes = 7 \<and> distinct WorkerSizes \<and> length WebSizes = 5 \<and> distinct WebSizes"
  by (simp add: WorkerSizes_def WebSizes_def)

text \<open>
  C9. \<^verbatim>\<open>Validate\<close> returns nil exactly when the certificate fields, the worker fields,
  the web size and the database size are all valid; when several groups are invalid,
  the error returned is the one of the first invalid group in the order certificates,
  workers, web, database.
\<close>

theorem Validate_nil_iff_valid:
  "((Validate args = None) =
      (certificates_valid args \<and> workers_valid args \<and> web_valid args \<and> db_valid args)) \<and>
   (\<not> certificates_valid args \<longrightarrow>
      Validate args = validateCertFields args \<and> validateCertFields args \<noteq> None) \<and>
   (certificates_valid args \<and> \<not> workers_valid args \<longrightarrow>
      Validate args = validateWorkerFields args \<and> validateWorkerFields args \<noteq> None) \<and>
   (certificates_valid args \<and> workers_valid args \<and> \<not> web_valid args \<longrightarrow>
      Validate args = validateWebFields args \<and> validateWebFields args \<noteq> None) \<and>
   (certificates_valid args \<and> workers_valid args \<and> web_valid args \<and> \<not> db_valid args \<longrightarrow>
      Validate args = validateDBFields args \<and> validateDBFields args \<noteq> None)"
  unfolding Validate_first_error
    validateCertFields_None [symmetric] validateWorkerFields_None [symmetric]
    validateWebFields_None [symmetric] validateDBFields_None [symmetric]
  by auto

theorem Validate_nil_iff_valid_witness:
  "Validate good_args = None \<and>
   Validate bad_args = Some (ErrorsNew ''--tls-key requires --tls-cert to also be provided'') \<and>
   Validate (bad_args\<lparr>TLSCert := ''cert''\<rparr>) = Some (ErrorsNew ''minimum of workers is 1'') \<and>
   Validate (bad_args\<lparr>TLSCert := ''cert'', WorkerCount := 3\<rparr>) =
     Some (Errorf ''unknown web node size: `%s`. Valid sizes are: %v'' [Str ''tiny'', StrSlice WebSizes]) \<and>
   Validate (bad_args\<lparr>TLSCert := ''cert'', WorkerCount := 3, WebSize := ''large''\<rparr>) =
     Some (Errorf ''unknown DB size: `%s`. Valid sizes are: %v'' [Str ''huge'', StrMap DBSizes])"
proof -
  have good: "certificates_valid good_args \<and> workers_valid good_args \<and> web_valid good_args
      \<and> db_valid good_args"
    by (simp add: certificates_valid_def workers_valid_def web_valid_def db_valid_def
          good_args_def DBSizes_def)
  have bad1: "\<not> certificates_valid bad_args"
    by (simp add: certificates_valid_def bad_args_def good_args_def)
  have bad2: "certificates_valid (bad_args\<lparr>TLSCert := ''cert''\<rparr>)
      \<and> \<not> workers_valid (bad_args\<lparr>TLSCert := ''cert''\<rparr>)"
    by (simp add: certificates_valid_def workers_valid_def bad_args_def good_args_def)
  have bad3: "certificates_valid (bad_args\<lparr>TLSCert := ''cert'', WorkerCount := 3\<rparr>)
      \<and> workers_valid (bad_args\<lparr>TLSCert := ''cert'', WorkerCount := 3\<rparr>)
      \<and> \<not> web_valid (bad_args\<lparr>TLSCert := ''cert'', WorkerCount := 3\<rparr>)"
    by (simp add: certificates_valid_def workers_valid_def web_valid_def bad_args_def good_args_def)
  have bad4: "certificates_valid (bad_args\<lparr>TLSCert := ''cert'', WorkerCount := 3, WebSize := ''large''\<rparr>)
      \<and> workers_valid (bad_args\<lparr>TLSCert := ''cert'', WorkerCount := 3, WebSize := ''large''\<rparr>)
      \<and> web_valid (bad_args\<lparr>TLSCert := ''cert'', WorkerCount := 3, WebSize := ''large''\<rparr>)
      \<and> \<not> db_valid (bad_args\<lparr>TLSCert := ''cert'', WorkerCount := 3, WebSize := ''large''\<rparr>)"
    by (simp add: certificates_valid_def workers_valid_def web_valid_def db_valid_def
          bad_args_def good_args_def DBSizes_def)
  have c: "validateCertFields bad_args =
      Some (ErrorsNew ''--tls-key requires --tls-cert to also be provided'')"
    by (simp add: validateCertFields_def bad_args_def good_args_def)
  have w: "validateWorkerFields (bad_args\<lparr>TLSCert := ''cert''\<rparr>) =
      Some (ErrorsNew ''minimum of workers is 1'')"
    by (simp add: validateWorkerFields_def bad_args_def good_args_def)
  have b: "validateWebFields (bad_args\<lparr>TLSCert := ''cert'', WorkerCount := 3\<rparr>) =
      Some (Errorf ''unknown web node size: `%s`. Valid sizes are: %v'' [Str ''tiny'', StrSlice WebSizes])"
    by (simp add: validateWebFields_def bad_args_def good_args_def WebSizes_def)
  have d: "validateDBFields (bad_args\<lparr>TLSCert := ''cert'', WorkerCount := 3, WebSize := ''large''\<rparr>) =
      Some (Errorf ''unknown DB size: `%s`. Valid sizes are: %v'' [Str ''huge'', StrMap DBSizes])"
    by (simp add: validateDBFields_def bad_args_def good_args_def DBSizes_def)
  from Validate_nil_iff_valid [of good_args] good
  have 0: "Validate good_args = None" by blast
  from Validate_nil_iff_valid [of bad_args] bad1 c
  have 1: "Validate bad_args = Some (ErrorsNew ''--tls-key requires --tls-cert to also be provided'')"
    by simp
  from Validate_nil_iff_valid [of "bad_args\<lparr>TLSCert := ''cert''\<rparr>"] bad2 w
  have 2: "Validate (bad_args\<lparr>TLSCert := ''cert''\<rparr>) = Some (ErrorsNew ''minimum of workers is 1'')"
    by simp
  from Validate_nil_iff_valid [of "bad_args\<lparr>TLSCert := ''cert'', WorkerCount := 3\<rparr>"] bad3 b
  have 3: "Validate (bad_args\<lparr>TLSCert := ''cert'', WorkerCount := 3\<rparr>) =
     Some (Errorf ''unknown web node size: `%s`. Valid sizes are: %v'' [Str ''tiny'', StrSlice WebSizes])"
    by simp
  from Validate_nil_iff_valid
         [of "bad_args\<lparr>TLSCert := ''cert'', WorkerCount := 3, WebSize := ''large''\<rparr>"] bad4 d
  have 4: "Validate (bad_args\<lparr>TLSCert := ''cert'', WorkerCount := 3, WebSize := ''large''\<rparr>) =
     Some (Errorf ''unknown DB size: `%s`. Valid sizes are: %v'' [Str ''huge'', StrMap DBSizes])"
    by simp
  from 0 1 2 3 4 show ?thesis by blast
qed

section \<open>The S3 client: results by provider answer\<close>

lemma Code_Panic_iff: "(Code err = Panic) = (\<not> implements_awserr err)"
  by (cases err) auto

lemmas s3Client_defs =
  s3Client_DeleteObject_def s3Client_DeleteBucket_def s3Client_CreateBucket_def
  s3Client_PutBucketVersioning_def s3Client_HeadBucket_def s3Client_PutObject_def
  s3Client_HeadObject_def s3Client_GetObject_def

lemmas awsErrCode_defs = awsErrCodeNoSuchBucket_def awsErrCodeNoSuchKey_def awsErrCodeNotFound_def

lemmas mem_run_defs =
  mem_client_def mem_service_def scripted_def no_faults_def fail_on_def start_def cfg_store_def
  empty_s3_def current_def put_bucket_def without_def page_of_def version_id_def
  not_found_def no_such_key_def no_such_bucket_def access_denied_def
  mem_ListObjectVersionsPages_def mem_DeleteObject_def mem_DeleteBucket_def mem_CreateBucket_def
  mem_PutBucketVersioning_def mem_HeadBucket_def mem_PutObject_def mem_HeadObject_def
  mem_GetObject_def

lemma HasFile_answer:
  "api_HeadObject (service client) bucket path (prov w) = (r, s') \<Longrightarrow>
   HasFile client bucket path w =
     ((case r of
         None \<Rightarrow> Return (True, None)
       | Some err \<Rightarrow>
           (case Code err of
              Panic \<Rightarrow> Panic
            | Return c \<Rightarrow>
                if c = ''NotFound'' \<or> c = ''NoSuchKey'' then Return (False, None)
                else Return (False, Some err))),
      \<lparr>trace = trace w @ [HeadObjectInput bucket path], prov = s'\<rparr>)"
  by (simp add: HasFile_def s3Client_defs issue_def awsErrCode_defs
      split: option.splits outcome.splits)

lemma BucketExists_answer:
  "api_HeadBucket (service client) name (prov w) = (r, s') \<Longrightarrow>
   BucketExists client name w =
     ((case r of
         None \<Rightarrow> Return (True, None)
       | Some err \<Rightarrow>
           (case Code err of
              Panic \<Rightarrow> Panic
            | Return c \<Rightarrow>
                if c = ''NotFound'' \<or> c = ''NoSuchBucket'' then Return (False, None)
                else Return (False, Some err))),
      \<lparr>trace = trace w @ [HeadBucketInput name], prov = s'\<rparr>)"
  by (simp add: BucketExists_def s3Client_defs issue_def awsErrCode_defs
      split: option.splits outcome.splits)

lemma EnsureFileExists_answer:
  "api_GetObject (service client) bucket path (prov w) = (g, s1) \<Longrightarrow>
   api_PutObject (service client) bucket path defaultContents s1 = (p, s2) \<Longrightarrow>
   EnsureFileExists client bucket path defaultContents w =
     (case g of
        Inr output \<Rightarrow>
          (Return (case snd (Body output) of
                     None \<Rightarrow> (Some (fst (Body output)), False, None)
                   | Some e \<Rightarrow> (None, False, Some e)),
           \<lparr>trace = trace w @ [GetObjectInput bucket path], prov = s1\<rparr>)
      | Inl err \<Rightarrow>
          (case Code err of
             Panic \<Rightarrow> (Panic, \<lparr>trace = trace w @ [GetObjectInput bucket path], prov = s1\<rparr>)
           | Return c \<Rightarrow>
               if c = ''NoSuchKey'' \<or> c = ''NotFound''
               then (Return (case p of
                               None \<Rightarrow> (Some defaultContents, True, None)
                             | Some e \<Rightarrow> (None, False, Some e)),
                     \<lparr>trace = trace w @ [GetObjectInput bucket path,
                                          PutObjectInput bucket path defaultContents],
                      prov = s2\<rparr>)
               else (Return (None, False, Some err),
                     \<lparr>trace = trace w @ [GetObjectInput bucket path], prov = s1\<rparr>)))"
  by (auto simp: EnsureFileExists_def s3Client_defs issue_def awsErrCode_defs
      split: option.splits outcome.splits sum.splits prod.splits)

text \<open>
  C10. \<^verbatim>\<open>BucketExists\<close>, \<^verbatim>\<open>HasFile\<close> and \<^verbatim>\<open>EnsureFileExists\<close> assert every non-nil
  error of their request to be an \<^verbatim>\<open>awserr.Error\<close> without checking: each of them panics
  exactly when the provider's error does not implement that interface.
\<close>

theorem unchecked_assertion_panics:
  "((fst (BucketExists client name w) = Panic) =
      (\<exists>err. fst (api_HeadBucket (service client) name (prov w)) = Some err \<and> \<not> implements_awserr err)) \<and>
   ((fst (HasFile client bucket path w) = Panic) =
      (\<exists>err. fst (api_HeadObject (service client) bucket path (prov w)) = Some err \<and> \<not> implements_awserr err)) \<and>
   ((fst (EnsureFileExists client bucket path defaultContents w) = Panic) =
      (\<exists>err. fst (api_GetObject (service client) bucket path (prov w)) = Inl err \<and> \<not> implements_awserr err))"
proof (intro conjI)
  obtain r s' where h: "api_HeadBucket (service client) name (prov w) = (r, s')"
    by (cases "api_HeadBucket (service client) name (prov w)")
  show "(fst (BucketExists client name w) = Panic) =
      (\<exists>err. fst (api_HeadBucket (service client) name (prov w)) = Some err \<and> \<not> implements_awserr err)"
    by (simp add: BucketExists_answer [OF h] h Code_Panic_iff [symmetric]
        split: option.splits outcome.splits)
next
  obtain r s' where h: "api_HeadObject (service client) bucket path (prov w) = (r, s')"
    by (cases "api_HeadObject (service client) bucket path (prov w)")
  show "(fst (HasFile client bucket path w) = Panic) =
      (\<exists>err. fst (api_HeadObject (service client) bucket path (prov w)) = Some err \<and> \<not> implements_awserr err)"
    by (simp add: HasFile_answer [OF h] h Code_Panic_iff [symmetric]
        split: option.splits outcome.splits)
next
  obtain g s1 where h: "api_GetObject (service client) bucket path (prov w) = (g, s1)"
    by (cases "api_GetObject (service client) bucket path (prov w)")
  obtain p s2 where q: "api_PutObject (service client) bucket path defaultContents s1 = (p, s2)"
    by (cases "api_PutObject (service client) bucket path defaultContents s1")
  show "(fst (EnsureFileExists client bucket path defaultContents w) = Panic) =
      (\<exists>err. fst (api_GetObject (service client) bucket path (prov w)) = Inl err \<and> \<not> implements_awserr err)"
    by (simp add: EnsureFileExists_answer [OF h q] h Code_Panic_iff [symmetric]
        split: option.splits outcome.splits sum.splits)
qed

theorem unchecked_assertion_panics_witness:
  "fst (BucketExists (mem_client ''eu-west-1'' unreachable 0) ''cfg-store'' (start (cfg_store [] 0))) = Panic \<and>
   fst (HasFile (mem_client ''eu-west-1'' unreachable 0) ''cfg-store'' ''state.json''
          (start (cfg_store [] 0))) = Panic \<and>
   fst (EnsureFileExists (mem_client ''eu-west-1'' unreachable 0) ''cfg-store'' ''state.json'' ''{}''
          (start (cfg_store [] 0))) = Panic"
proof -
  let ?c = "mem_client ''eu-west-1'' unreachable 0"
  let ?w = "start (cfg_store [] 0)"
  have e: "\<not> implements_awserr (ErrorsNew ''connection reset'')" by simp
  have 1: "fst (api_HeadBucket (service ?c) ''cfg-store'' (prov ?w)) = Some (ErrorsNew ''connection reset'')"
    by (simp add: mem_client_def mem_service_def scripted_def unreachable_def)
  have 2: "fst (api_HeadObject (service ?c) ''cfg-store'' ''state.json'' (prov ?w))
      = Some (ErrorsNew ''connection reset'')"
    by (simp add: mem_client_def mem_service_def scripted_def unreachable_def)
  have 3: "fst (api_GetObject (service ?c) ''cfg-store'' ''state.json'' (prov ?w))
      = Inl (ErrorsNew ''connection reset'')"
    by (simp add: mem_client_def mem_service_def scripted_def unreachable_def)
  from unchecked_assertion_panics
         [where client = ?c and name = "''cfg-store''" and bucket = "''cfg-store''"
            and path = "''state.json''" and defaultContents = "''{}''" and w = ?w]
       e 1 2 3
  show ?thesis by blast
qed



text \<open>
  C7, as amended. Each operation that reads the provider's error code treats two of the
  three codes as not found: NotFound and the code of its own kind of resource
  (NoSuchBucket for \<^verbatim>\<open>BucketExists\<close>; NoSuchKey for \<^verbatim>\<open>HasFile\<close> and
  \<^verbatim>\<open>EnsureFileExists\<close>, which then goes on to write). Every other error that implements
  \<^verbatim>\<open>awserr.Error\<close>, the third not-found code included, is returned to the caller as it
  is, and \<^verbatim>\<open>EnsureFileExists\<close> then writes nothing.
\<close>

theorem not_found_codes_by_operation:
  "(fst (api_HeadBucket (service client) name (prov w)) = Some (AwsError code message) \<longrightarrow>
      ((fst (BucketExists client name w) = Return (False, None)) =
         (code = ''NotFound'' \<or> code = ''NoSuchBucket'')) \<and>
      ((fst (BucketExists client name w) = Return (False, Some (AwsError code message))) =
         (code \<noteq> ''NotFound'' \<and> code \<noteq> ''NoSuchBucket''))) \<and>
   (fst (api_HeadObject (service client) bucket path (prov w)) = Some (AwsError code message) \<longrightarrow>
      ((fst (HasFile client bucket path w) = Return (False, None)) =
         (code = ''NotFound'' \<or> code = ''NoSuchKey'')) \<and>
      ((fst (HasFile client bucket path w) = Return (False, Some (AwsError code message))) =
         (code \<noteq> ''NotFound'' \<and> code \<noteq> ''NoSuchKey''))) \<and>
   (fst (api_GetObject (service client) bucket path (prov w)) = Inl (AwsError code message) \<longrightarrow>
      ((trace (snd (EnsureFileExists client bucket path defaultContents w)) =
          trace w @ [GetObjectInput bucket path, PutObjectInput bucket path defaultContents]) =
         (code = ''NotFound'' \<or> code = ''NoSuchKey'')) \<and>
      ((fst (EnsureFileExists client bucket path defaultContents w) =
            Return (None, False, Some (AwsError code message)) \<and>
        trace (snd (EnsureFileExists client bucket path defaultContents w)) =
          trace w @ [GetObjectInput bucket path]) =
         (code \<noteq> ''NotFound'' \<and> code \<noteq> ''NoSuchKey'')))"
proof -
  obtain r s' where h: "api_HeadObject (service client) bucket path (prov w) = (r, s')"
    by (cases "api_HeadObject (service client) bucket path (prov w)")
  obtain r' s'' where b: "api_HeadBucket (service client) name (prov w) = (r', s'')"
    by (cases "api_HeadBucket (service client) name (prov w)")
  obtain g s1 where g: "api_GetObject (service client) bucket path (prov w) = (g, s1)"
    by (cases "api_GetObject (service client) bucket path (prov w)")
  obtain p s2 where q: "api_PutObject (service client) bucket path defaultContents s1 = (p, s2)"
    by (cases "api_PutObject (service client) bucket path defaultContents s1")
  have 1: "fst (api_HeadBucket (service client) name (prov w)) = Some (AwsError code message) \<longrightarrow>
      ((fst (BucketExists client name w) = Return (False, None)) =
         (code = ''NotFound'' \<or> code = ''NoSuchBucket'')) \<and>
      ((fst (BucketExists client name w) = Return (False, Some (AwsError code message))) =
         (code \<noteq> ''NotFound'' \<and> code \<noteq> ''NoSuchBucket''))"
    by (simp add: BucketExists_answer [OF b] b)
  have 2: "fst (api_HeadObject (service client) bucket path (prov w)) = Some (AwsError code message) \<longrightarrow>
      ((fst (HasFile client bucket path w) = Return (False, None)) =
         (code = ''NotFound'' \<or> code = ''NoSuchKey'')) \<and>
      ((fst (HasFile client bucket path w) = Return (False, Some (AwsError code message))) =
         (code \<noteq> ''NotFound'' \<and> code \<noteq> ''NoSuchKey''))"
    by (simp add: HasFile_answer [OF h] h)
  have 3: "fst (api_GetObject (service client) bucket path (prov w)) = Inl (AwsError code message) \<longrightarrow>
      ((trace (snd (EnsureFileExists client bucket path defaultContents w)) =
          trace w @ [GetObjectInput bucket path, PutObjectInput bucket path defaultContents]) =
         (code = ''NotFound'' \<or> code = ''NoSuchKey'')) \<and>
      ((fst (EnsureFileExists client bucket path defaultContents w) =
            Return (None, False, Some (AwsError code message)) \<and>
        trace (snd (EnsureFileExists client bucket path defaultContents w)) =
          trace w @ [GetObjectInput bucket path]) =
         (code \<noteq> ''NotFound'' \<and> code \<noteq> ''NoSuchKey''))"
    by (auto simp: EnsureFileExists_answer [OF g q] g split: option.splits)
  from 1 2 3 show ?thesis by blast
qed

theorem not_found_codes_by_operation_witness:
  "fst (BucketExists (mem_client ''eu-west-1'' bucket_gone 0) ''cfg-store'' (start empty_s3))
     = Return (False, None) \<and>
   fst (HasFile (mem_client ''eu-west-1'' bucket_gone 0) ''cfg-store'' ''state.json'' (start empty_s3))
     = Return (False, Some no_such_bucket) \<and>
   fst (EnsureFileExists (mem_client ''eu-west-1'' bucket_gone 0) ''cfg-store'' ''state.json'' ''{}''
          (start empty_s3))
     = Return (None, False, Some no_such_bucket) \<and>
   trace (snd (EnsureFileExists (mem_client ''eu-west-1'' bucket_gone 0) ''cfg-store'' ''state.json'' ''{}''
          (start empty_s3)))
     = [GetObjectInput ''cfg-store'' ''state.json'']"
proof -
  let ?c = "mem_client ''eu-west-1'' bucket_gone 0"
  let ?w = "start empty_s3"
  have 1: "fst (api_HeadBucket (service ?c) ''cfg-store'' (prov ?w))
      = Some (AwsError ''NoSuchBucket'' ''The specified bucket does not exist'')"
    by (simp add: mem_client_def mem_service_def scripted_def bucket_gone_def no_such_bucket_def)
  have 2: "fst (api_HeadObject (service ?c) ''cfg-store'' ''state.json'' (prov ?w))
      = Some (AwsError ''NoSuchBucket'' ''The specified bucket does not exist'')"
    by (simp add: mem_client_def mem_service_def scripted_def bucket_gone_def no_such_bucket_def)
  have 3: "fst (api_GetObject (service ?c) ''cfg-store'' ''state.json'' (prov ?w))
      = Inl (AwsError ''NoSuchBucket'' ''The specified bucket does not exist'')"
    by (simp add: mem_client_def mem_service_def scripted_def bucket_gone_def no_such_bucket_def)
  have 4: "trace ?w = []"
    by (simp add: start_def)
  from not_found_codes_by_operation
         [where client = ?c and name = "''cfg-store''" and bucket = "''cfg-store''"
            and path = "''state.json''" and defaultContents = "''{}''" and w = ?w
            and code = "''NoSuchBucket''" and message = "''The specified bucket does not exist''"]
       1 2 3 4
  show ?thesis by (simp add: no_such_bucket_def)
qed

theorem not_found_codes_counterexample:
  "fst (api_GetObject (service (mem_client ''eu-west-1'' no_faults 0)) ''cfg-store'' ''state.json''
          (prov (start empty_s3))) = Inl (AwsError ''NoSuchBucket'' ''The specified bucket does not exist'') \<and>
   fst (EnsureFileExists (mem_client ''eu-west-1'' no_faults 0) ''cfg-store'' ''state.json'' ''{}''
          (start empty_s3))
     = Return (None, False, Some (AwsError ''NoSuchBucket'' ''The specified bucket does not exist'')) \<and>
   trace (snd (EnsureFileExists (mem_client ''eu-west-1'' no_faults 0) ''cfg-store'' ''state.json'' ''{}''
          (start empty_s3)))
     = [GetObjectInput ''cfg-store'' ''state.json''] \<and>
   fst (HasFile (mem_client ''eu-west-1'' bucket_gone 0) ''cfg-store'' ''state.json'' (start empty_s3))
     = Return (False, Some (AwsError ''NoSuchBucket'' ''The specified bucket does not exist''))"
  by (simp add: EnsureFileExists_def HasFile_def s3Client_defs issue_def awsErrCode_defs
        mem_run_defs bucket_gone_def)

text \<open>
  C3, as amended. \<^verbatim>\<open>EnsureFileExists\<close> first requests the object. If that succeeds and
  the body is read, it returns the stored content with wasCreated false and writes
  nothing; if reading the body fails it returns that error and writes nothing. If the
  request fails with an \<^verbatim>\<open>awserr.Error\<close> of code NoSuchKey or NotFound it writes the
  default contents and returns them with wasCreated true when the write succeeds, and the
  write's error with wasCreated false when it fails. If the request fails with any other
  \<^verbatim>\<open>awserr.Error\<close> it returns that error and writes nothing.
\<close>

theorem EnsureFileExists_by_load_result:
  assumes "api_GetObject (service client) bucket path (prov w) = (g, s1)"
    and "api_PutObject (service client) bucket path defaultContents s1 = (p, s2)"
  shows
  "(g = Inr out \<and> Body out = (contents, None) \<longrightarrow>
      EnsureFileExists client bucket path defaultContents w =
        (Return (Some contents, False, None),
         \<lparr>trace = trace w @ [GetObjectInput bucket path], prov = s1\<rparr>)) \<and>
   (g = Inr out \<and> Body out = (contents, Some e) \<longrightarrow>
      EnsureFileExists client bucket path defaultContents w =
        (Return (None, False, Some e),
         \<lparr>trace = trace w @ [GetObjectInput bucket path], prov = s1\<rparr>)) \<and>
   (g = Inl (AwsError code message) \<and> (code = ''NoSuchKey'' \<or> code = ''NotFound'') \<and> p = None \<longrightarrow>
      EnsureFileExists client bucket path defaultContents w =
        (Return (Some defaultContents, True, None),
         \<lparr>trace = trace w @ [GetObjectInput bucket path, PutObjectInput bucket path defaultContents],
          prov = s2\<rparr>)) \<and>
   (g = Inl (AwsError code message) \<and> (code = ''NoSuchKey'' \<or> code = ''NotFound'') \<and> p = Some e \<longrightarrow>
      EnsureFileExists client bucket path defaultContents w =
        (Return (None, False, Some e),
         \<lparr>trace = trace w @ [GetObjectInput bucket path, PutObjectInput bucket path defaultContents],
          prov = s2\<rparr>)) \<and>
   (g = Inl (AwsError code message) \<and> code \<noteq> ''NoSuchKey'' \<and> code \<noteq> ''NotFound'' \<longrightarrow>
      EnsureFileExists client bucket path defaultContents w =
        (Return (None, False, Some (AwsError code message)),
         \<lparr>trace = trace w @ [GetObjectInput bucket path], prov = s1\<rparr>))"
  by (auto simp: EnsureFileExists_answer [OF assms])

theorem EnsureFileExists_by_load_result_witness:
  "fst (EnsureFileExists (mem_client ''eu-west-1'' no_faults 0) ''cfg-store'' ''state.json'' ''{}''
          (start (cfg_store [] 0))) = Return (Some ''{}'', True, None) \<and>
   trace (snd (EnsureFileExists (mem_client ''eu-west-1'' no_faults 0) ''cfg-store'' ''state.json'' ''{}''
          (start (cfg_store [] 0))))
     = [GetObjectInput ''cfg-store'' ''state.json'', PutObjectInput ''cfg-store'' ''state.json'' ''{}''] \<and>
   fst (EnsureFileExists (mem_client ''eu-west-1'' no_faults 0) ''cfg-store'' ''state.json'' ''{}''
          (start (cfg_store [Version ''state.json'' ''v'' ''old''] 1))) = Return (Some ''old'', False, None) \<and>
   trace (snd (EnsureFileExists (mem_client ''eu-west-1'' no_faults 0) ''cfg-store'' ''state.json'' ''{}''
          (start (cfg_store [Version ''state.json'' ''v'' ''old''] 1))))
     = [GetObjectInput ''cfg-store'' ''state.json''] \<and>
   fst (EnsureFileExists truncating_client ''cfg-store'' ''state.json'' ''{}'' (start (cfg_store [] 0)))
     = Return (None, False, Some (ErrorsNew ''unexpected EOF'')) \<and>
   trace (snd (EnsureFileExists truncating_client ''cfg-store'' ''state.json'' ''{}'' (start (cfg_store [] 0))))
     = [GetObjectInput ''cfg-store'' ''state.json''] \<and>
   fst (EnsureFileExists
          (mem_client ''eu-west-1'' (fail_on (PutObjectInput ''cfg-store'' ''state.json'' ''{}'') access_denied) 0)
          ''cfg-store'' ''state.json'' ''{}'' (start (cfg_store [] 0)))
     = Return (None, False, Some access_denied) \<and>
   fst (EnsureFileExists (mem_client ''eu-west-1'' denied 0) ''cfg-store'' ''state.json'' ''{}''
          (start (cfg_store [] 0)))
     = Return (None, False, Some (AwsError ''AccessDenied'' ''Access Denied'')) \<and>
   trace (snd (EnsureFileExists (mem_client ''eu-west-1'' denied 0) ''cfg-store'' ''state.json'' ''{}''
          (start (cfg_store [] 0))))
     = [GetObjectInput ''cfg-store'' ''state.json'']"
proof -
  let ?c = "mem_client ''eu-west-1'' no_faults 0"
  let ?f = "mem_client ''eu-west-1'' (fail_on (PutObjectInput ''cfg-store'' ''state.json'' ''{}'') access_denied) 0"
  let ?d = "mem_client ''eu-west-1'' denied 0"
  let ?w = "start (cfg_store [] 0)"
  let ?w' = "start (cfg_store [Version ''state.json'' ''v'' ''old''] 1)"
  have t: "trace ?w = []" "trace ?w' = []"
    by (simp_all add: start_def)
  have g: "api_GetObject (service ?c) ''cfg-store'' ''state.json'' (prov ?w)
      = (Inl (AwsError ''NoSuchKey'' ''The specified key does not exist.''), cfg_store [] 0)"
    by (simp add: mem_run_defs)
  obtain s2 where p: "api_PutObject (service ?c) ''cfg-store'' ''state.json'' ''{}'' (cfg_store [] 0) = (None, s2)"
    by (simp add: mem_run_defs)
  from EnsureFileExists_by_load_result [OF g p, where code = "''NoSuchKey''"
         and message = "''The specified key does not exist.''"] t
  have 1: "fst (EnsureFileExists ?c ''cfg-store'' ''state.json'' ''{}'' ?w) = Return (Some ''{}'', True, None)"
    "trace (snd (EnsureFileExists ?c ''cfg-store'' ''state.json'' ''{}'' ?w))
     = [GetObjectInput ''cfg-store'' ''state.json'', PutObjectInput ''cfg-store'' ''state.json'' ''{}'']"
    by simp_all
  have g': "api_GetObject (service ?c) ''cfg-store'' ''state.json'' (prov ?w')
      = (Inr \<lparr>Body = (''old'', None)\<rparr>, cfg_store [Version ''state.json'' ''v'' ''old''] 1)"
    by (simp add: mem_run_defs)
  obtain q s3 where p': "api_PutObject (service ?c) ''cfg-store'' ''state.json'' ''{}''
      (cfg_store [Version ''state.json'' ''v'' ''old''] 1) = (q, s3)"
    by (cases "api_PutObject (service ?c) ''cfg-store'' ''state.json'' ''{}''
      (cfg_store [Version ''state.json'' ''v'' ''old''] 1)")
  from EnsureFileExists_by_load_result [OF g' p', where out = "\<lparr>Body = (''old'', None)\<rparr>"
         and contents = "''old''"] t
  have 2: "fst (EnsureFileExists ?c ''cfg-store'' ''state.json'' ''{}'' ?w') = Return (Some ''old'', False, None)"
    "trace (snd (EnsureFileExists ?c ''cfg-store'' ''state.json'' ''{}'' ?w'))
     = [GetObjectInput ''cfg-store'' ''state.json'']"
    by simp_all
  have gt: "api_GetObject (service truncating_client) ''cfg-store'' ''state.json'' (prov ?w)
      = (Inr \<lparr>Body = (''{'', Some (ErrorsNew ''unexpected EOF''))\<rparr>, cfg_store [] 0)"
    by (simp add: truncating_client_def start_def)
  obtain qt st where pt: "api_PutObject (service truncating_client) ''cfg-store'' ''state.json'' ''{}''
      (cfg_store [] 0) = (qt, st)"
    by (cases "api_PutObject (service truncating_client) ''cfg-store'' ''state.json'' ''{}'' (cfg_store [] 0)")
  from EnsureFileExists_by_load_result [OF gt pt,
         where out = "\<lparr>Body = (''{'', Some (ErrorsNew ''unexpected EOF''))\<rparr>"
         and contents = "''{''" and e = "ErrorsNew ''unexpected EOF''"] t
  have 3: "fst (EnsureFileExists truncating_client ''cfg-store'' ''state.json'' ''{}'' ?w)
     = Return (None, False, Some (ErrorsNew ''unexpected EOF''))"
    "trace (snd (EnsureFileExists truncating_client ''cfg-store'' ''state.json'' ''{}'' ?w))
     = [GetObjectInput ''cfg-store'' ''state.json'']"
    by simp_all
  have gf: "api_GetObject (service ?f) ''cfg-store'' ''state.json'' (prov ?w)
      = (Inl (AwsError ''NoSuchKey'' ''The specified key does not exist.''), cfg_store [] 0)"
    by (simp add: mem_run_defs)
  have pf: "api_PutObject (service ?f) ''cfg-store'' ''state.json'' ''{}'' (cfg_store [] 0)
      = (Some access_denied, cfg_store [] 0)"
    by (simp add: mem_client_def mem_service_def scripted_def fail_on_def)
  from EnsureFileExists_by_load_result [OF gf pf, where code = "''NoSuchKey''"
         and message = "''The specified key does not exist.''" and e = access_denied]
  have 4: "fst (EnsureFileExists ?f ''cfg-store'' ''state.json'' ''{}'' ?w)
     = Return (None, False, Some access_denied)"
    by simp
  have gd: "api_GetObject (service ?d) ''cfg-store'' ''state.json'' (prov ?w)
      = (Inl (AwsError ''AccessDenied'' ''Access Denied''), cfg_store [] 0)"
    by (simp add: mem_client_def mem_service_def scripted_def denied_def access_denied_def start_def)
  obtain qd sd where pd: "api_PutObject (service ?d) ''cfg-store'' ''state.json'' ''{}''
      (cfg_store [] 0) = (qd, sd)"
    by (cases "api_PutObject (service ?d) ''cfg-store'' ''state.json'' ''{}'' (cfg_store [] 0)")
  from EnsureFileExists_by_load_result [OF gd pd, where code = "''AccessDenied''"
         and message = "''Access Denied''"] t
  have 5: "fst (EnsureFileExists ?d ''cfg-store'' ''state.json'' ''{}'' ?w)
     = Return (None, False, Some (AwsError ''AccessDenied'' ''Access Denied''))"
    "trace (snd (EnsureFileExists ?d ''cfg-store'' ''state.json'' ''{}'' ?w))
     = [GetObjectInput ''cfg-store'' ''state.json'']"
    by simp_all
  from 1 2 3 4 5 show ?thesis by blast
qed

theorem EnsureFileExists_counterexample:
  "fst (EnsureFileExists
          (mem_client ''eu-west-1'' (fail_on (PutObjectInput ''cfg-store'' ''state.json'' ''{}'') access_denied) 0)
          ''cfg-store'' ''state.json'' ''{}'' (start (cfg_store [] 0)))
     = Return (None, False, Some (AwsError ''AccessDenied'' ''Access Denied'')) \<and>
   trace (snd (EnsureFileExists
          (mem_client ''eu-west-1'' (fail_on (PutObjectInput ''cfg-store'' ''state.json'' ''{}'') access_denied) 0)
          ''cfg-store'' ''state.json'' ''{}'' (start (cfg_store [] 0))))
     = [GetObjectInput ''cfg-store'' ''state.json'', PutObjectInput ''cfg-store'' ''state.json'' ''{}''] \<and>
   fst (EnsureFileExists (mem_client ''eu-west-1'' unreachable 0) ''cfg-store'' ''state.json'' ''{}''
          (start (cfg_store [] 0))) = Panic"
  by (simp add: EnsureFileExists_def s3Client_defs issue_def awsErrCode_defs mem_run_defs
        unreachable_def)

section \<open>Creating and ensuring a bucket\<close>

lemma CreateBucket_answer:
  "Region client = Some region \<Longrightarrow>
   cfg = (if region = ''us-east-1'' then None else Some \<lparr>LocationConstraint = Some region\<rparr>) \<Longrightarrow>
   api_CreateBucket (service client) name cfg (prov w) = (c, s1) \<Longrightarrow>
   api_PutBucketVersioning (service client) name ''Enabled'' s1 = (v, s2) \<Longrightarrow>
   CreateBucket client name w =
     (case c of
        Some err \<Rightarrow>
          (Return (Some (Errorf ''error creating S3 bucket [%v]: [%v]'' [Str name, Err err])),
           \<lparr>trace = trace w @ [CreateBucketInput name cfg], prov = s1\<rparr>)
      | None \<Rightarrow>
          (Return (case v of
                     Some err \<Rightarrow>
                       Some (Errorf ''error enabling versioning on S3 bucket [%v]: [%v]''
                               [Str name, Err err])
                   | None \<Rightarrow> None),
           \<lparr>trace = trace w @ [CreateBucketInput name cfg, PutBucketVersioningInput name ''Enabled''],
            prov = s2\<rparr>))"
  by (auto simp: CreateBucket_def s3Client_defs issue_def split: option.splits)

text \<open>
  C6. A request to create a bucket is the first request \<^verbatim>\<open>CreateBucket\<close> sends, and the
  only one of its kind. It carries no location constraint when the configured region is
  us-east-1, and a location constraint naming the configured region otherwise.
\<close>

theorem CreateBucket_location_constraint:
  "Region client = Some region \<Longrightarrow>
   \<exists>rest. trace (snd (CreateBucket client name w)) =
            trace w @
            CreateBucketInput name
              (if region = ''us-east-1'' then None
               else Some \<lparr>LocationConstraint = Some region\<rparr>) # rest \<and>
          (rest = [] \<or> rest = [PutBucketVersioningInput name ''Enabled''])"
proof -
  assume r: "Region client = Some region"
  let ?cfg = "if region = ''us-east-1'' then None else Some \<lparr>LocationConstraint = Some region\<rparr>"
  obtain c s1 where c: "api_CreateBucket (service client) name ?cfg (prov w) = (c, s1)"
    by (cases "api_CreateBucket (service client) name ?cfg (prov w)")
  obtain v s2 where v: "api_PutBucketVersioning (service client) name ''Enabled'' s1 = (v, s2)"
    by (cases "api_PutBucketVersioning (service client) name ''Enabled'' s1")
  show ?thesis
    by (cases c) (simp_all add: CreateBucket_answer [OF r refl c v])
qed

theorem CreateBucket_location_constraint_witness:
  "trace (snd (CreateBucket (mem_client ''us-east-1'' no_faults 0) ''cfg-store'' (start empty_s3)))
     = [CreateBucketInput ''cfg-store'' None, PutBucketVersioningInput ''cfg-store'' ''Enabled''] \<and>
   trace (snd (CreateBucket (mem_client ''eu-west-1'' no_faults 0) ''cfg-store'' (start empty_s3)))
     = [CreateBucketInput ''cfg-store'' (Some \<lparr>LocationConstraint = Some ''eu-west-1''\<rparr>),
        PutBucketVersioningInput ''cfg-store'' ''Enabled'']"
proof -
  have r: "Region (mem_client ''us-east-1'' no_faults 0) = Some ''us-east-1''"
      "Region (mem_client ''eu-west-1'' no_faults 0) = Some ''eu-west-1''"
    by (simp_all add: mem_client_def)
  have n: "length (trace (snd (CreateBucket (mem_client ''us-east-1'' no_faults 0) ''cfg-store'' (start empty_s3)))) = 2"
     "length (trace (snd (CreateBucket (mem_client ''eu-west-1'' no_faults 0) ''cfg-store'' (start empty_s3)))) = 2"
    by (simp_all add: CreateBucket_def s3Client_defs issue_def mem_run_defs)
  have t: "trace (start empty_s3) = []"
    by (simp add: start_def)
  from CreateBucket_location_constraint [OF r(1), of "''cfg-store''" "start empty_s3"]
       CreateBucket_location_constraint [OF r(2), of "''cfg-store''" "start empty_s3"] n t
  show ?thesis by auto
qed

lemma CreateBucket_nil_region: "Region client = None \<Longrightarrow> CreateBucket client name w = (Panic, w)"
  by (simp add: CreateBucket_def)

section \<open>Ensuring a file twice\<close>

text \<open>
  C4. On a provider that reads back what was written: when the object is absent at the
  first call and its write succeeds, two calls of \<^verbatim>\<open>EnsureFileExists\<close> in a row, with
  any default contents, both return the first call's default contents; the first reports
  wasCreated true, the second false, and the second writes nothing.
\<close>

theorem EnsureFileExists_twice:
  assumes law: "read_your_writes (service client)"
    and absent: "api_GetObject (service client) bucket path (prov w) = (Inl (AwsError code message), s1)"
      "code = ''NoSuchKey'' \<or> code = ''NotFound''"
    and put_ok: "api_PutObject (service client) bucket path first s1 = (None, s2)"
  shows "\<exists>w1 w2.
      EnsureFileExists client bucket path first w = (Return (Some first, True, None), w1) \<and>
      EnsureFileExists client bucket path second w1 = (Return (Some first, False, None), w2) \<and>
      trace w2 = trace w @ [GetObjectInput bucket path, PutObjectInput bucket path first,
                            GetObjectInput bucket path]"
proof -
  let ?w1 = "\<lparr>trace = trace w @ [GetObjectInput bucket path, PutObjectInput bucket path first],
             prov = s2\<rparr>"
  have 1: "EnsureFileExists client bucket path first w = (Return (Some first, True, None), ?w1)"
    using absent(2) by (auto simp: EnsureFileExists_answer [OF absent(1) put_ok])
  from law put_ok obtain s3 where
    reread: "api_GetObject (service client) bucket path s2 = (Inr \<lparr>Body = (first, None)\<rparr>, s3)"
    unfolding read_your_writes_def by blast
  then have reread': "api_GetObject (service client) bucket path (prov ?w1) = (Inr \<lparr>Body = (first, None)\<rparr>, s3)"
    by simp
  obtain p s4 where again: "api_PutObject (service client) bucket path second s3 = (p, s4)"
    by (cases "api_PutObject (service client) bucket path second s3")
  have 2: "EnsureFileExists client bucket path second ?w1 =
      (Return (Some first, False, None),
       \<lparr>trace = trace ?w1 @ [GetObjectInput bucket path], prov = s3\<rparr>)"
    by (simp add: EnsureFileExists_answer [OF reread' again])
  from 1 2 show ?thesis by simp
qed

lemma mem_read_your_writes: "read_your_writes (service (mem_client region no_faults page))"
  unfolding read_your_writes_def
  by (auto simp: mem_client_def mem_service_def scripted_def no_faults_def mem_PutObject_def
        mem_GetObject_def put_bucket_def current_def
      split: option.splits if_splits)

theorem EnsureFileExists_twice_witness:
  "fst (EnsureFileExists (mem_client ''eu-west-1'' no_faults 0) ''cfg-store'' ''state.json'' ''{}''
          (start (cfg_store [] 0))) = Return (Some ''{}'', True, None) \<and>
   fst (EnsureFileExists (mem_client ''eu-west-1'' no_faults 0) ''cfg-store'' ''state.json'' ''other''
          (snd (EnsureFileExists (mem_client ''eu-west-1'' no_faults 0) ''cfg-store'' ''state.json'' ''{}''
             (start (cfg_store [] 0))))) = Return (Some ''{}'', False, None)"
proof -
  let ?c = "mem_client ''eu-west-1'' no_faults 0"
  let ?w = "start (cfg_store [] 0)"
  have g: "api_GetObject (service ?c) ''cfg-store'' ''state.json'' (prov ?w)
      = (Inl (AwsError ''NoSuchKey'' ''The specified key does not exist.''), cfg_store [] 0)"
    by (simp add: mem_run_defs)
  obtain s2 where p: "api_PutObject (service ?c) ''cfg-store'' ''state.json'' ''{}'' (cfg_store [] 0) = (None, s2)"
    by (simp add: mem_run_defs)
  from EnsureFileExists_twice [OF mem_read_your_writes g _ p, of "''other''"]
  show ?thesis by auto
qed

section \<open>Ensuring a container twice\<close>

text \<open>
  C8. \<^verbatim>\<open>EnsureContainer\<close> asks for the bucket first. When it is absent and is created,
  versioning is enabled right after the creation; the first call then reports that it
  created the container, and a second call finds it, reports that it exists and sends no
  creation request, neither call returning an error. When enabling versioning fails, the
  first call returns that failure as an error.
\<close>

theorem EnsureContainer_twice:
  assumes region: "Region client = Some region"
    and cfg: "cfg = (if region = ''us-east-1'' then None else Some \<lparr>LocationConstraint = Some region\<rparr>)"
    and absent: "api_HeadBucket (service client) name (prov w) = (Some (AwsError code message), s1)"
      "code = ''NotFound'' \<or> code = ''NoSuchBucket''"
    and created: "api_CreateBucket (service client) name cfg s1 = (None, s2)"
    and versioned: "api_PutBucketVersioning (service client) name ''Enabled'' s2 = (v, s3)"
  shows
  "(v = None \<and> created_bucket_is_found (service client) \<longrightarrow>
      (\<exists>w1 w2.
         EnsureContainer client name w = (Return (True, None), w1) \<and>
         trace w1 = trace w @ [HeadBucketInput name, CreateBucketInput name cfg,
                               PutBucketVersioningInput name ''Enabled''] \<and>
         EnsureContainer client name w1 = (Return (False, None), w2) \<and>
         trace w2 = trace w1 @ [HeadBucketInput name])) \<and>
   (v = Some e \<longrightarrow>
      (\<exists>w1.
         EnsureContainer client name w =
           (Return (False, Some (Errorf ''error enabling versioning on S3 bucket [%v]: [%v]''
                                   [Str name, Err e])), w1) \<and>
         trace w1 = trace w @ [HeadBucketInput name, CreateBucketInput name cfg,
                               PutBucketVersioningInput name ''Enabled'']))"
proof -
  let ?w0 = "\<lparr>trace = trace w @ [HeadBucketInput name], prov = s1\<rparr>"
  let ?w1 = "\<lparr>trace = trace ?w0 @ [CreateBucketInput name cfg, PutBucketVersioningInput name ''Enabled''],
             prov = s3\<rparr>"
  have head: "BucketExists client name w = (Return (False, None), ?w0)"
    using absent(2) by (auto simp: BucketExists_answer [OF absent(1)])
  have created': "api_CreateBucket (service client) name cfg (prov ?w0) = (None, s2)"
    using created by simp
  have create: "CreateBucket client name ?w0 =
      (Return (case v of
                 Some err \<Rightarrow>
                   Some (Errorf ''error enabling versioning on S3 bucket [%v]: [%v]'' [Str name, Err err])
               | None \<Rightarrow> None), ?w1)"
    by (simp add: CreateBucket_answer [OF region cfg created' versioned])
  have first: "EnsureContainer client name w =
      (Return (case v of
                 Some err \<Rightarrow>
                   (False, Some (Errorf ''error enabling versioning on S3 bucket [%v]: [%v]''
                                   [Str name, Err err]))
               | None \<Rightarrow> (True, None)), ?w1)"
    by (simp add: EnsureContainer_def head create split: option.splits)
  have second: "EnsureContainer client name ?w1 =
      (Return (False, None), \<lparr>trace = trace ?w1 @ [HeadBucketInput name], prov = s4\<rparr>)"
    if found: "api_HeadBucket (service client) name s3 = (None, s4)" for s4
  proof -
    from found have "api_HeadBucket (service client) name (prov ?w1) = (None, s4)"
      by simp
    from BucketExists_answer [OF this] show ?thesis
      by (simp add: EnsureContainer_def)
  qed
  have a: "v = None \<and> created_bucket_is_found (service client) \<longrightarrow>
      (\<exists>w1 w2.
         EnsureContainer client name w = (Return (True, None), w1) \<and>
         trace w1 = trace w @ [HeadBucketInput name, CreateBucketInput name cfg,
                               PutBucketVersioningInput name ''Enabled''] \<and>
         EnsureContainer client name w1 = (Return (False, None), w2) \<and>
         trace w2 = trace w1 @ [HeadBucketInput name])"
  proof
    assume h: "v = None \<and> created_bucket_is_found (service client)"
    with created versioned have "fst (api_HeadBucket (service client) name s3) = None"
      unfolding created_bucket_is_found_def by blast
    then obtain s4 where "api_HeadBucket (service client) name s3 = (None, s4)"
      by (cases "api_HeadBucket (service client) name s3") simp
    from second [OF this] first h show "\<exists>w1 w2.
         EnsureContainer client name w = (Return (True, None), w1) \<and>
         trace w1 = trace w @ [HeadBucketInput name, CreateBucketInput name cfg,
                               PutBucketVersioningInput name ''Enabled''] \<and>
         EnsureContainer client name w1 = (Return (False, None), w2) \<and>
         trace w2 = trace w1 @ [HeadBucketInput name]"
      by simp
  qed
  have b: "v = Some e \<longrightarrow>
      (\<exists>w1.
         EnsureContainer client name w =
           (Return (False, Some (Errorf ''error enabling versioning on S3 bucket [%v]: [%v]''
                                   [Str name, Err e])), w1) \<and>
         trace w1 = trace w @ [HeadBucketInput name, CreateBucketInput name cfg,
                               PutBucketVersioningInput name ''Enabled''])"
    using first by simp
  from a b show ?thesis by blast
qed

lemma mem_created_bucket_is_found:
  "created_bucket_is_found (service (mem_client region no_faults page))"
  unfolding created_bucket_is_found_def
  by (auto simp: mem_client_def mem_service_def scripted_def no_faults_def mem_CreateBucket_def
        mem_PutBucketVersioning_def mem_HeadBucket_def put_bucket_def
      split: option.splits if_splits)

theorem EnsureContainer_twice_witness:
  "fst (EnsureContainer (mem_client ''eu-west-1'' no_faults 0) ''cfg-store'' (start empty_s3))
     = Return (True, None) \<and>
   fst (EnsureContainer (mem_client ''eu-west-1'' no_faults 0) ''cfg-store''
          (snd (EnsureContainer (mem_client ''eu-west-1'' no_faults 0) ''cfg-store'' (start empty_s3))))
     = Return (False, None) \<and>
   fst (EnsureContainer
          (mem_client ''eu-west-1'' (fail_on (PutBucketVersioningInput ''cfg-store'' ''Enabled'') access_denied) 0)
          ''cfg-store'' (start empty_s3))
     = Return (False, Some (Errorf ''error enabling versioning on S3 bucket [%v]: [%v]''
                              [Str ''cfg-store'', Err access_denied]))"
proof -
  let ?c = "mem_client ''eu-west-1'' no_faults 0"
  let ?d = "mem_client ''eu-west-1'' (fail_on (PutBucketVersioningInput ''cfg-store'' ''Enabled'') access_denied) 0"
  let ?cfg = "Some \<lparr>LocationConstraint = Some ''eu-west-1''\<rparr>"
  have r: "Region ?c = Some ''eu-west-1''" "Region ?d = Some ''eu-west-1''"
    by (simp_all add: mem_client_def)
  have cfg: "?cfg = (if ''eu-west-1'' = ''us-east-1'' then None
                     else Some \<lparr>LocationConstraint = Some ''eu-west-1''\<rparr>)"
    by simp
  have h: "api_HeadBucket (service ?c) ''cfg-store'' (prov (start empty_s3))
      = (Some (AwsError ''NotFound'' ''Not Found''), empty_s3)"
    "api_HeadBucket (service ?d) ''cfg-store'' (prov (start empty_s3))
      = (Some (AwsError ''NotFound'' ''Not Found''), empty_s3)"
    by (simp_all add: mem_run_defs)
  obtain s2 where c: "api_CreateBucket (service ?c) ''cfg-store'' ?cfg empty_s3 = (None, s2)"
    by (simp add: mem_run_defs)
  obtain s3 where v: "api_PutBucketVersioning (service ?c) ''cfg-store'' ''Enabled'' s2 = (None, s3)"
    using c by (auto simp: mem_run_defs)
  obtain t2 where c': "api_CreateBucket (service ?d) ''cfg-store'' ?cfg empty_s3 = (None, t2)"
    by (simp add: mem_run_defs)
  have v': "api_PutBucketVersioning (service ?d) ''cfg-store'' ''Enabled'' t2 = (Some access_denied, t2)"
    by (simp add: mem_client_def mem_service_def scripted_def fail_on_def)
  from EnsureContainer_twice [OF r(1) cfg h(1) _ c v] mem_created_bucket_is_found [of "''eu-west-1''" 0]
       EnsureContainer_twice [OF r(2) cfg h(2) _ c' v', of access_denied]
  show ?thesis by auto
qed

section \<open>Tearing down a versioned bucket\<close>

text \<open>
  What the teardown gets right, on any provider: every page of the listing is read, and
  when the listing succeeds and no delete fails, one delete is sent for each entry of
  \<^verbatim>\<open>Versions\<close> of each page, by key and version id, in order, before the one request that
  deletes the bucket. The \<^verbatim>\<open>DeleteMarkers\<close> of the pages are never read.
\<close>

lemma EachPage_collects_Versions:
  "EachPage (\<lambda>output _ objects. (True, objects @ Versions output)) pages acc =
     (False, acc @ concat (map Versions pages))"
  by (induction pages arbitrary: acc) simp_all

lemma delete_objects_all_deleted:
  assumes "\<forall>k v s. fst (api_DeleteObject svc name k v s) = None"
  shows "\<exists>w'. delete_objects svc name objects w = (None, w') \<and>
      trace w' = trace w @ map (\<lambda>ob. DeleteObjectInput name (Key ob) (VersionId ob)) objects"
proof (induction objects arbitrary: w)
  case Nil
  show ?case by simp
next
  case (Cons ob rest)
  obtain r s' where d: "api_DeleteObject svc name (Key ob) (VersionId ob) (prov w) = (r, s')"
    by (cases "api_DeleteObject svc name (Key ob) (VersionId ob) (prov w)")
  with assms have r: "r = None"
    by (metis fst_conv)
  let ?w1 = "\<lparr>trace = trace w @ [DeleteObjectInput name (Key ob) (VersionId ob)], prov = s'\<rparr>"
  from Cons.IH [of ?w1] obtain w' where
    "delete_objects svc name rest ?w1 = (None, w')"
    "trace w' = trace ?w1 @ map (\<lambda>ob. DeleteObjectInput name (Key ob) (VersionId ob)) rest"
    by blast
  then show ?case
    by (simp add: s3Client_DeleteObject_def issue_def d r)
qed

lemma DeleteVersionedBucket_all_deleted:
  assumes listed: "api_ListObjectVersionsPages (service client) name (prov w) = ((pages, None), s1)"
    and deletes: "\<forall>k v s. fst (api_DeleteObject (service client) name k v s) = None"
  shows "trace (snd (DeleteVersionedBucket client name w)) =
      trace w @ ListObjectVersionsInput name #
        map (\<lambda>ob. DeleteObjectInput name (Key ob) (VersionId ob)) (concat (map Versions pages)) @
        [DeleteBucketInput name]"
proof -
  let ?w1 = "\<lparr>trace = trace w @ [ListObjectVersionsInput name], prov = s1\<rparr>"
  from delete_objects_all_deleted [OF deletes, of "concat (map Versions pages)" ?w1]
  obtain w2 where
    d: "delete_objects (service client) name (concat (map Versions pages)) ?w1 = (None, w2)"
    and t: "trace w2 = trace ?w1 @
      map (\<lambda>ob. DeleteObjectInput name (Key ob) (VersionId ob)) (concat (map Versions pages))"
    by blast
  show ?thesis
    by (simp add: DeleteVersionedBucket_def s3Client_ListObjectVersionsPages_def issue_def listed
          EachPage_collects_Versions d t s3Client_DeleteBucket_def split: prod.splits)
qed

lemma DeleteVersionedBucket_four_versions:
  "DeleteVersionedBucket (mem_client ''eu-west-1'' no_faults 1) ''cfg-store''
      (start (cfg_store [Version ''b'' ''viii'' ''w'', Version ''a'' ''vii'' ''z'',
                         Version ''a'' ''vi'' ''y'', Version ''a'' ''v'' ''x''] 4))
     = (None,
        \<lparr>trace = [ListObjectVersionsInput ''cfg-store'',
                  DeleteObjectInput ''cfg-store'' (Some ''b'') (Some ''viii''),
                  DeleteObjectInput ''cfg-store'' (Some ''a'') (Some ''vii''),
                  DeleteObjectInput ''cfg-store'' (Some ''a'') (Some ''vi''),
                  DeleteObjectInput ''cfg-store'' (Some ''a'') (Some ''v''),
                  DeleteBucketInput ''cfg-store''],
         prov = \<lparr>buckets = Map.empty, issued = 4\<rparr>\<rparr>)"
  by (simp add: DeleteVersionedBucket_def s3Client_ListObjectVersionsPages_def s3Client_defs
        issue_def mem_run_defs)

text \<open>Whenever the loop over the collected objects returns from inside, it returns nil.\<close>

lemma delete_objects_returns_nil:
  "delete_objects svc name objects w = (Some r, w') \<Longrightarrow> r = None"
  by (induction objects arbitrary: w) (auto split: prod.splits option.splits)

text \<open>
  C1. The bucket \<^verbatim>\<open>cfg-store\<close> holds one version of the key \<^verbatim>\<open>a\<close>, and the provider
  refuses to delete it (AccessDenied). \<^verbatim>\<open>DeleteVersionedBucket\<close> stops before the request
  that deletes the bucket, as claimed, but it returns nil: the delete error is not
  surfaced to the caller.
\<close>

theorem DeleteVersionedBucket_masks_delete_error:
  "fst (api_DeleteObject
          (service (mem_client ''eu-west-1''
             (fail_on (DeleteObjectInput ''cfg-store'' (Some ''a'') (Some ''v'')) access_denied) 0))
          ''cfg-store'' (Some ''a'') (Some ''v'') (cfg_store [Version ''a'' ''v'' ''x''] 1))
     = Some access_denied \<and>
   DeleteVersionedBucket
      (mem_client ''eu-west-1''
         (fail_on (DeleteObjectInput ''cfg-store'' (Some ''a'') (Some ''v'')) access_denied) 0)
      ''cfg-store'' (start (cfg_store [Version ''a'' ''v'' ''x''] 1))
     = (None,
        \<lparr>trace = [ListObjectVersionsInput ''cfg-store'',
                  DeleteObjectInput ''cfg-store'' (Some ''a'') (Some ''v'')],
         prov = cfg_store [Version ''a'' ''v'' ''x''] 1\<rparr>)"
  by (simp add: DeleteVersionedBucket_def s3Client_ListObjectVersionsPages_def s3Client_defs
        issue_def mem_run_defs)

lemma deleted_file_holds_marker:
  "deleted_file =
     \<lparr>trace = [PutObjectInput ''cfg-store'' ''a'' ''x'', DeleteObjectInput ''cfg-store'' (Some ''a'') None],
      prov = cfg_store [Marker ''a'' ''vi'', Version ''a'' ''v'' ''x''] 2\<rparr>"
  by (simp add: deleted_file_def DeleteFile_def WriteFile_def s3Client_defs issue_def mem_run_defs
        numeral_2_eq_2)

text \<open>
  C2. After \<^verbatim>\<open>DeleteFile\<close> the bucket lists a delete marker beside the version.
  \<^verbatim>\<open>DeleteVersionedBucket\<close> collects the \<^verbatim>\<open>Versions\<close> of each page only: it deletes the
  version, sends no delete for the delete marker, and asks for the bucket to be deleted
  while the marker is still listed; the provider refuses (BucketNotEmpty).
\<close>

theorem DeleteVersionedBucket_skips_delete_markers:
  "fst (DeleteVersionedBucket (mem_client ''eu-west-1'' no_faults 0) ''cfg-store'' deleted_file)
     = Some (AwsError ''BucketNotEmpty'' ''The bucket you tried to delete is not empty'') \<and>
   trace (snd (DeleteVersionedBucket (mem_client ''eu-west-1'' no_faults 0) ''cfg-store'' deleted_file))
     = [PutObjectInput ''cfg-store'' ''a'' ''x'',
        DeleteObjectInput ''cfg-store'' (Some ''a'') None,
        ListObjectVersionsInput ''cfg-store'',
        DeleteObjectInput ''cfg-store'' (Some ''a'') (Some ''v''),
        DeleteBucketInput ''cfg-store''] \<and>
   fst (api_ListObjectVersionsPages (service (mem_client ''eu-west-1'' no_faults 0)) ''cfg-store''
          (prov (snd (DeleteVersionedBucket (mem_client ''eu-west-1'' no_faults 0) ''cfg-store''
                        deleted_file))))
     = ([\<lparr>Versions = [],
          DeleteMarkers = [\<lparr>MarkerKey = Some ''a'', MarkerVersionId = Some ''vi''\<rparr>]\<rparr>], None)"
  by (simp add: deleted_file_holds_marker DeleteVersionedBucket_def
        s3Client_ListObjectVersionsPages_def s3Client_defs issue_def mem_run_defs)

end
